theory Spec2Isabelle
  imports Complex_Main
begin

section \<open>The file system as the scanner sees it\<close>

text \<open>
  \<open>largefiles.py\<close> reads the file system through \<open>pathlib.Path\<close> only: \<open>name\<close>,
  \<open>lstat()\<close>, \<open>stat()\<close>, \<open>is_symlink()\<close>, \<open>is_dir()\<close> and \<open>iterdir()\<close>. A path is
  modelled by the answers these calls give. Every call that reaches the operating system
  may raise \<open>OSError\<close>; the answer is then \<open>Inl\<close> of the error. \<open>iterdir()\<close> lists the
  whole directory before the first entry is handed out, so it either fails as a whole or
  yields all entries. Of a stat result only \<open>st_size\<close> and \<open>st_ino\<close> are read.
\<close>

datatype oserror = OSError string

datatype exn = TypeError string

record stat_result =
  st_size :: int
  st_ino :: int

datatype path = Path (str_path: string) (path_name: string)
  (lstat: "oserror + stat_result") (stat: "oserror + stat_result")
  (is_symlink: "oserror + bool") (is_dir: "oserror + bool")
  (iterdir: "oserror + path list")

text \<open>
  The classes \<open>File\<close> and \<open>Directory\<close>. The private field \<open>_obj\<close> is only read by the
  constructors and is left out. The field \<open>size\<close> is called \<open>size_of\<close> here.
\<close>

datatype node = File (name: string) (size_of: int)
  | Directory (name: string) (size_of: int) (content: "node list")

text \<open>
  The module's globals \<open>scanned\<close> and \<open>next_report_num\<close>, the progress lines printed
  to standard output (the count and the path shown) and the errors given to
  \<open>logging.error\<close>.
\<close>

record globals =
  scanned :: int
  next_report_num :: int
  stdout :: "(int \<times> string) list"
  log :: "oserror list"

definition report_every :: int where
  "report_every = 5000"

definition File_init :: "path \<Rightarrow> globals \<Rightarrow> node \<times> globals" where
  "File_init p g =
     (case lstat p of
        Inr s \<Rightarrow> (File (path_name p) (st_size s), g\<lparr>scanned := scanned g + 1\<rparr>)
      | Inl ex \<Rightarrow> (File (path_name p) 0, g\<lparr>log := log g @ [ex], scanned := scanned g + 1\<rparr>))"

definition report :: "path \<Rightarrow> globals \<Rightarrow> globals" where
  "report p g =
     (if scanned g > next_report_num g
      then g\<lparr>next_report_num := next_report_num g + report_every,
             stdout := stdout g @ [(scanned g, str_path p)]\<rparr>
      else g)"

text \<open>
  \<open>Directory.__init__\<close> once \<open>_default\<close> has produced a path, and its loop over
  \<open>iterdir()\<close>. The loop carries the running \<open>size\<close> and \<open>self.content\<close>; an
  \<open>OSError\<close> raised inside it leaves the loop with the content collected so far, and the
  handler sets the size to 0 and logs. The junction test returns early, before
  \<open>scanned\<close> is incremented.
\<close>

fun Directory_init :: "path \<Rightarrow> globals \<Rightarrow> node \<times> globals"
and scan_entries :: "path list \<Rightarrow> int \<Rightarrow> node list \<Rightarrow> globals
      \<Rightarrow> (oserror + int) \<times> node list \<times> globals"
where
  "Directory_init (Path sp nm ls st sl dr itd) g0 =
     (let g = report (Path sp nm ls st sl dr itd) g0 in
      case ls of
        Inl e \<Rightarrow> (Directory nm 0 [], g\<lparr>log := log g @ [e], scanned := scanned g + 1\<rparr>)
      | Inr st_result \<Rightarrow>
         (case st of
            Inl e \<Rightarrow> (Directory nm 0 [], g\<lparr>log := log g @ [e], scanned := scanned g + 1\<rparr>)
          | Inr st_result2 \<Rightarrow>
             if st_ino st_result2 \<noteq> st_ino st_result then (Directory nm 0 [], g)
             else
              (case itd of
                 Inl e \<Rightarrow>
                   (Directory nm 0 [], g\<lparr>log := log g @ [e], scanned := scanned g + 1\<rparr>)
               | Inr ps \<Rightarrow>
                  (case scan_entries ps (st_size st_result) [] g of
                     (Inl e, cont, g') \<Rightarrow>
                       (Directory nm 0 cont,
                        g'\<lparr>log := log g' @ [e], scanned := scanned g' + 1\<rparr>)
                   | (Inr sz, cont, g') \<Rightarrow>
                       (Directory nm sz cont, g'\<lparr>scanned := scanned g' + 1\<rparr>)))))"
| "scan_entries [] sz cont g = (Inr sz, cont, g)"
| "scan_entries (p # ps) sz cont g =
     (case is_symlink p of
        Inl e \<Rightarrow> (Inl e, cont, g)
      | Inr True \<Rightarrow>
         (case lstat p of
            Inl e \<Rightarrow> (Inl e, cont, g)
          | Inr s \<Rightarrow> scan_entries ps (sz + st_size s) cont g)
      | Inr False \<Rightarrow>
         (case is_dir p of
            Inl e \<Rightarrow> (Inl e, cont, g)
          | Inr True \<Rightarrow>
             (case Directory_init p g of (obj, g') \<Rightarrow>
                scan_entries ps (sz + size_of obj) (cont @ [obj]) g')
          | Inr False \<Rightarrow>
             (case File_init p g of (obj, g') \<Rightarrow>
                scan_entries ps (sz + size_of obj) (cont @ [obj]) g')))"

text \<open>
  The argument of the constructor is any Python value: \<open>None\<close>, a \<open>str\<close>, a
  \<open>pathlib.Path\<close>, or something else. \<open>Path(s)\<close> for a string \<open>s\<close> is looked up in the
  file system \<open>fs\<close>, a parameter.
\<close>

datatype pyarg = PyNone | PyStr string | PyPath path | PyOther

definition Directory_default :: "(string \<Rightarrow> path) \<Rightarrow> pyarg \<Rightarrow> string \<Rightarrow> exn + path" where
  "Directory_default fs dirname nm =
     (case dirname of
        PyNone \<Rightarrow> Inr (fs ''.'')
      | PyStr s \<Rightarrow> Inr (fs s)
      | PyPath p \<Rightarrow> Inr p
      | PyOther \<Rightarrow> Inl (TypeError (nm @ '' must be None, a str or a pathlib.Path'')))"

definition Directory_new :: "(string \<Rightarrow> path) \<Rightarrow> pyarg \<Rightarrow> globals \<Rightarrow> (exn + node) \<times> globals" where
  "Directory_new fs arg g =
     (case Directory_default fs arg ''path'' of
        Inl e \<Rightarrow> (Inl e, g)
      | Inr p \<Rightarrow> (case Directory_init p g of (d, g') \<Rightarrow> (Inr d, g')))"

section \<open>Numbers as text\<close>

text \<open>
  Python numbers are modelled by exact reals: an \<open>int\<close> is embedded by \<open>of_int\<close>, a
  \<open>float\<close> is the real it stands for, and \<open>/\<close> is exact division (the rounding of
  IEEE doubles is not modelled). \<open>str(n)\<close> of a non-negative integer is \<open>str_nat n\<close>.

  \<open>'{:.4g}'.format(x)\<close> follows the Python documentation of the general format with
  precision 4: \<open>x\<close> is rounded (half to even) to 4 significant digits, giving digits
  \<open>m\<close> and a decimal exponent \<open>e\<close>; if \<open>-4 \<le> e < 4\<close> the result is in fixed-point
  notation, otherwise in scientific notation with a signed exponent of at least two
  digits; insignificant trailing zeros and a trailing decimal point are removed.
  \<open>dec_exp x\<close> is the decimal exponent of a positive \<open>x\<close>, computed from the number of
  digits of the integer part of \<open>x\<close> (or of \<open>1 / x\<close> below 1).
\<close>

definition digit_char :: "nat \<Rightarrow> char" where
  "digit_char d = char_of (48 + d)"

fun str_nat :: "nat \<Rightarrow> string" where
  "str_nat n = (if n < 10 then [digit_char n] else str_nat (n div 10) @ [digit_char (n mod 10)])"

declare str_nat.simps [simp del]

fun ndigits :: "nat \<Rightarrow> nat" where
  "ndigits n = (if n < 10 then 1 else Suc (ndigits (n div 10)))"

declare ndigits.simps [simp del]

definition dec_exp :: "real \<Rightarrow> int" where
  "dec_exp x = (if 1 \<le> x then int (ndigits (nat \<lfloor>x\<rfloor>)) - 1
                else - int (ndigits (nat (\<lceil>1 / x\<rceil> - 1))))"

definition round_half_even :: "real \<Rightarrow> int" where
  "round_half_even r =
     (let f = \<lfloor>r\<rfloor> in
      if r - of_int f < 1 / 2 then f
      else if r - of_int f > 1 / 2 then f + 1
      else if even f then f else f + 1)"

definition scale10 :: "real \<Rightarrow> int \<Rightarrow> real" where
  "scale10 x k = (if 0 \<le> k then x * 10 ^ nat k else x / 10 ^ nat (- k))"

definition sig4 :: "real \<Rightarrow> nat \<times> int" where
  "sig4 x =
     (let e = dec_exp x; m = round_half_even (scale10 x (3 - e))
      in if m = 10000 then (1000, e + 1) else (nat m, e))"

fun strip_zeros :: "string \<Rightarrow> string" where
  "strip_zeros s = rev (dropWhile (\<lambda>c. c = CHR ''0'') (rev s))"

definition frac_part :: "string \<Rightarrow> string" where
  "frac_part ds = (let t = strip_zeros ds in if t = [] then [] else ''.'' @ t)"

definition exp_digits :: "nat \<Rightarrow> string" where
  "exp_digits n = (if n < 10 then ''0'' @ str_nat n else str_nat n)"

definition format_4g :: "real \<Rightarrow> string" where
  "format_4g x =
     (if x = 0 then ''0''
      else
        (case sig4 \<bar>x\<bar> of (m, e) \<Rightarrow>
           (if x < 0 then ''-'' else []) @
           (if - 4 \<le> e \<and> e < 4 then
              (if 0 \<le> e then take (nat e + 1) (str_nat m) @ frac_part (drop (nat e + 1) (str_nat m))
               else ''0'' @ frac_part (replicate (nat (- e - 1)) CHR ''0'' @ str_nat m))
            else take 1 (str_nat m) @ frac_part (drop 1 (str_nat m)) @ ''e''
                 @ (if e < 0 then ''-'' else ''+'') @ exp_digits (nat \<bar>e\<bar>))))"

fun units_loop :: "string list \<Rightarrow> real \<Rightarrow> string" where
  "units_loop [] sz = format_4g sz @ ''YiB''"
| "units_loop (unit # units) sz =
     (if sz < 1024 then format_4g sz @ unit else units_loop units (sz / 1024))"

definition format_size :: "real \<Rightarrow> string" where
  "format_size sz =
     units_loop [''B'', ''KiB'', ''MiB'', ''GiB'', ''TiB'', ''PiB'', ''EiB'', ''ZiB''] sz"

section \<open>The renderers\<close>

text \<open>
  \<open>sorted(path.content, key=lambda x: x.size, reverse=True)\<close>: Python's sort is stable,
  also with \<open>reverse=True\<close>, and so is \<open>sort_key\<close> on the negated size.
  \<open>np.average\<close> is the arithmetic mean and \<open>np.var\<close> the population variance.
\<close>

definition np_average :: "int list \<Rightarrow> real" where
  "np_average xs = real_of_int (sum_list xs) / real (length xs)"

definition np_var :: "int list \<Rightarrow> real" where
  "np_var xs = (\<Sum>x\<leftarrow>xs. (real_of_int x - np_average xs)\<^sup>2) / real (length xs)"


text \<open>
  \<open>html.escape(s)\<close> with its default \<open>quote=True\<close>: \<open>&\<close> is replaced first, then
  \<open><\<close>, \<open>>\<close>, the double quote and the single quote; since no replacement text contains
  a character that a later step replaces, this is a replacement character by character.
\<close>

definition escape_char :: "char \<Rightarrow> string" where
  \<open>escape_char c =
     (if c = CHR ''&'' then ''&amp;''
      else if c = CHR ''<'' then ''&lt;''
      else if c = CHR ''>'' then ''&gt;''
      else if c = CHR 0x22 then ''&quot;''
      else if c = CHR 0x27 then ''&#x27;''
      else [c])\<close>

definition html_escape :: "string \<Rightarrow> string" where
  "html_escape s = concat (map escape_char s)"

text \<open>
  The builder (\<open>io.StringIO\<close>) is the sequence of its \<open>write\<close> calls. Each call of
  \<open>print_html_tree_elements\<close> writes one of six format strings; a write is recorded as
  the format string chosen and the arguments given to it, and \<open>write_text\<close> is the text
  that \<open>str.format\<close> produces from them. \<open>getvalue\<close> is the text of all writes.
\<close>

datatype html_write =
    FolderOpen string
  | FolderLabel string nat string string
  | EmptyMark string
  | OthersMark string string nat string string
  | FolderClose string
  | FileLine string string string

definition write_text :: "html_write \<Rightarrow> string" where
  \<open>write_text w =
     (case w of
        FolderOpen level_str \<Rightarrow> level_str @ ''<div class="folder">'' @ [CHR 0x0A]
      | FolderLabel level_str ident nm sz \<Rightarrow>
          level_str @ '' <input type="checkbox" class="folder-check" id="'' @ str_nat ident
          @ ''"><label for="'' @ str_nat ident
          @ ''" class="folder-name"><span class="size">('' @ sz @ '')</span> '' @ nm
          @ ''</label>'' @ [CHR 0x0A]
      | EmptyMark level_str \<Rightarrow>
          level_str @ '' <div class="others">(empty)</div>'' @ [CHR 0x0A]
      | OthersMark level_str sz num avg stddev \<Rightarrow>
          level_str @ '' <div class="others"><span class="size">('' @ sz @ '')</span> (''
          @ str_nat num @ '' others avg='' @ avg @ '' stddev='' @ stddev @ '')</div>''
          @ [CHR 0x0A]
      | FolderClose level_str \<Rightarrow> level_str @ ''</div>'' @ [CHR 0x0A]
      | FileLine level_str sz nm \<Rightarrow>
          level_str @ ''<div class="file"><span class="size">('' @ sz
          @ '')</span> <span class="file-name">'' @ nm @ ''</span></div>'' @ [CHR 0x0A])\<close>

definition getvalue :: "html_write list \<Rightarrow> string" where
  "getvalue builder = concat (map write_text builder)"

text \<open>
  \<open>print_html_tree_elements\<close>: \<open>counter\<close> (an \<open>itertools.count\<close>) is the next number it
  will hand out, and the function returns the counter and the builder as it leaves
  them.
\<close>

fun print_html_tree_elements ::
  "node \<Rightarrow> real \<Rightarrow> nat \<Rightarrow> nat \<times> html_write list \<Rightarrow> nat \<times> html_write list" where
  "print_html_tree_elements (File nm sz) threshold level (counter, builder) =
     (counter, builder @ [FileLine (replicate level CHR '' '')
                            (html_escape (format_size (real_of_int sz))) (html_escape nm)])"
| "print_html_tree_elements (Directory nm sz cont) threshold level (counter, builder) =
     (let level_str = replicate level CHR '' '';
          builder1 = builder @ [FolderOpen level_str,
                       FolderLabel level_str counter (html_escape nm)
                         (html_escape (format_size (real_of_int sz)))];
          result = sort_key (\<lambda>x. - size_of x) cont;
          min_size = (if length result = 0 then 0
                      else real_of_int sz * threshold / real (length result));
          builder2 = (if length result = 0 then builder1 @ [EmptyMark level_str]
                      else builder1)
      in case fold (\<lambda>subpath (cb, others).
                      if real_of_int (size_of subpath) \<ge> min_size
                      then (print_html_tree_elements subpath threshold (level + 1) cb, others)
                      else (cb, others @ [size_of subpath]))
                   result ((counter + 1, builder2), [])
         of ((counter', builder3), others) \<Rightarrow>
           (counter',
            (if length others > 0
             then builder3 @ [OthersMark level_str
                    (html_escape (format_size (real_of_int (sum_list others))))
                    (length others)
                    (html_escape (format_size (np_average others)))
                    (html_escape (format_size (sqrt (np_var others))))]
             else builder3) @ [FolderClose level_str]))"

text \<open>
  \<open>html_template % content\<close>. The default arguments \<open>counter=itertools.count()\<close> and
  \<open>builder=io.StringIO()\<close> of \<open>print_html_tree_elements\<close> are created once, when the
  function is defined, and live as long as the module: they are state.
  \<open>print_html_tree\<close> passes a fresh builder and no counter, so it draws from the
  default counter. The sink \<open>file\<close> is the list of the texts printed.
\<close>

definition html_template :: "string \<Rightarrow> string" where
  \<open>html_template body =
     concat (map (\<lambda>l. l @ [CHR 0x0A])
       [''<!DOCTYPE html>'', ''<html>'', ''<head>'', ''<title>Large file report</title>'',
        ''<style>'', ''.folder, .file {'',
        ''  font-family: "Consolas", "Courier New", "Courier", monospace;'',
        ''  font-weight: bold;'', ''  font-size: 14px;'', ''}'',
        ''.folder-check {'', ''  display: none;'', ''}'',
        ''.folder-check ~ div {'', ''  display: none;'', ''  padding-left: 1em;'', ''}'',
        ''.folder-check:checked ~ div {'', ''  display: block;'', ''}'',
        ''.folder-name {'', ''  color: #009;'', ''}'',
        ''.file-name {'', ''  color: #090;'', ''}'',
        ''.size {'', ''  color: #960;'', ''}'',
        ''.others {'', ''  color: #666;'', ''  font-weight: normal;'', ''}'',
        ''</style>'', ''</head>'', ''<body>''])
     @ body @ [CHR 0x0A] @ ''</body>'' @ [CHR 0x0A] @ ''</html>''\<close>

record html_defaults =
  counter_default :: nat
  builder_default :: "html_write list"

definition print_html_tree ::
  "node \<Rightarrow> real \<Rightarrow> nat \<Rightarrow> string list \<Rightarrow> html_defaults \<Rightarrow> string list \<times> html_defaults" where
  "print_html_tree path threshold level file dflt =
     (case print_html_tree_elements path threshold level (counter_default dflt, []) of
        (counter', builder) \<Rightarrow>
          (file @ [html_template (getvalue builder)], dflt\<lparr>counter_default := counter'\<rparr>))"

section \<open>Notions of the specification and example inputs\<close>

text \<open>
  The link sizes of the symlink entries directly inside a directory, as the specification
  names them, and the entries whose handling raises \<open>OSError\<close> inside the loop:
  \<open>is_symlink()\<close> raises, or \<open>lstat()\<close> of a symlink raises, or \<open>is_dir()\<close> raises.
\<close>

definition symlink_link_sizes :: "path list \<Rightarrow> int" where
  "symlink_link_sizes ps =
     sum_list (map (\<lambda>q. case lstat q of Inr s \<Rightarrow> st_size s | Inl _ \<Rightarrow> 0)
                   (filter (\<lambda>q. is_symlink q = Inr True) ps))"

definition entry_raises :: "path \<Rightarrow> bool" where
  "entry_raises q =
     (case is_symlink q of
        Inl _ \<Rightarrow> True
      | Inr True \<Rightarrow> isl (lstat q)
      | Inr False \<Rightarrow> isl (is_dir q))"

text \<open>The globals as the module initialises them, and some paths.\<close>

definition globals0 :: globals where
  "globals0 = \<lparr>scanned = 0, next_report_num = 0, stdout = [], log = []\<rparr>"

definition dir4096 :: path where
  "dir4096 = Path ''/srv/d'' ''d'' (Inr \<lparr>st_size = 4096, st_ino = 7\<rparr>)
     (Inr \<lparr>st_size = 4096, st_ino = 7\<rparr>) (Inr False) (Inr True) (Inr [])"

definition file_a :: path where
  "file_a = Path ''/srv/d/a'' ''a'' (Inr \<lparr>st_size = 1000, st_ino = 11\<rparr>)
     (Inr \<lparr>st_size = 1000, st_ino = 11\<rparr>) (Inr False) (Inr False)
     (Inl (OSError ''Not a directory''))"

definition link_b :: path where
  "link_b = Path ''/srv/d/b'' ''b'' (Inr \<lparr>st_size = 9, st_ino = 12\<rparr>)
     (Inr \<lparr>st_size = 1000, st_ino = 11\<rparr>) (Inr True) (Inr False)
     (Inl (OSError ''Not a directory''))"

definition dir_d :: path where
  "dir_d = Path ''/srv/d'' ''d'' (Inr \<lparr>st_size = 4096, st_ino = 7\<rparr>)
     (Inr \<lparr>st_size = 4096, st_ino = 7\<rparr>) (Inr False) (Inr True)
     (Inr [file_a, link_b])"

definition junction_j :: path where
  "junction_j = Path ''C:/j'' ''j'' (Inr \<lparr>st_size = 0, st_ino = 3\<rparr>)
     (Inr \<lparr>st_size = 0, st_ino = 8\<rparr>) (Inr False) (Inr True)
     (Inr [Path ''C:/j/big'' ''big'' (Inr \<lparr>st_size = 1000000000000, st_ino = 9\<rparr>)
            (Inr \<lparr>st_size = 1000000000000, st_ino = 9\<rparr>) (Inr False) (Inr False)
            (Inl (OSError ''Not a directory''))])"

definition locked :: path where
  "locked = Path ''/srv/locked'' ''locked'' (Inr \<lparr>st_size = 4096, st_ino = 21\<rparr>)
     (Inr \<lparr>st_size = 4096, st_ino = 21\<rparr>) (Inr False) (Inr True)
     (Inl (OSError ''Permission denied''))"

definition missing :: path where
  "missing = Path ''C:/nope'' ''nope'' (Inl (OSError ''No such file or directory''))
     (Inl (OSError ''No such file or directory'')) (Inr False) (Inr False)
     (Inl (OSError ''No such file or directory''))"

definition dangling :: path where
  "dangling = Path ''/srv/l'' ''l'' (Inr \<lparr>st_size = 9, st_ino = 31\<rparr>)
     (Inl (OSError ''No such file or directory'')) (Inr True) (Inr False)
     (Inl (OSError ''No such file or directory''))"

text \<open>
  The errors that the constructor logs for a path that is no directory it can list: the
  first of \<open>lstat\<close>, \<open>stat\<close> and \<open>iterdir\<close> that raises, in the order of the
  calls; nothing when the two stats disagree on the inode.
\<close>

definition root_errors :: "path \<Rightarrow> oserror list" where
  "root_errors p =
     (case lstat p of
        Inl e \<Rightarrow> [e]
      | Inr s \<Rightarrow>
         (case stat p of
            Inl e \<Rightarrow> [e]
          | Inr s' \<Rightarrow>
             if st_ino s' \<noteq> st_ino s then []
             else (case iterdir p of Inl e \<Rightarrow> [e] | Inr _ \<Rightarrow> [])))"


text \<open>
  The admission threshold of a directory of size \<open>sz\<close> with children \<open>cont\<close>, the
  children that meet it and the sizes of those that do not, both in the order of the
  sorted list.
\<close>

definition min_size_of :: "int \<Rightarrow> real \<Rightarrow> node list \<Rightarrow> real" where
  "min_size_of sz threshold cont = real_of_int sz * threshold / real (length cont)"

definition shown_children :: "int \<Rightarrow> real \<Rightarrow> node list \<Rightarrow> node list" where
  "shown_children sz threshold cont =
     filter (\<lambda>c. min_size_of sz threshold cont \<le> real_of_int (size_of c))
            (sort_key (\<lambda>x. - size_of x) cont)"

definition other_sizes :: "int \<Rightarrow> real \<Rightarrow> node list \<Rightarrow> int list" where
  "other_sizes sz threshold cont =
     map size_of (filter (\<lambda>c. \<not> min_size_of sz threshold cont \<le> real_of_int (size_of c))
                         (sort_key (\<lambda>x. - size_of x) cont))"



text \<open>
  What a write of the document backend shows of names and toggle identifiers: the name
  argument of a folder label or file line, and the identifier of a folder label. A text
  is safe for markup if it has no \<open><\<close>, \<open>>\<close>, double or single quote, and every \<open>&\<close>
  in it starts one of the five entities that \<open>html.escape\<close> produces.
\<close>

definition names_written :: "html_write \<Rightarrow> string list" where
  "names_written w =
     (case w of FolderLabel _ _ nm _ \<Rightarrow> [nm] | FileLine _ _ nm \<Rightarrow> [nm] | _ \<Rightarrow> [])"

definition toggle_ids :: "html_write list \<Rightarrow> nat list" where
  "toggle_ids ws =
     concat (map (\<lambda>w. case w of FolderLabel _ ident _ _ \<Rightarrow> [ident] | _ \<Rightarrow> []) ws)"

fun markup_safe :: "string \<Rightarrow> bool" where
  "markup_safe [] = True"
| "markup_safe (c # cs) =
     (c \<noteq> CHR ''<'' \<and> c \<noteq> CHR ''>'' \<and> c \<noteq> CHR 0x22 \<and> c \<noteq> CHR 0x27
      \<and> (if c = CHR ''&''
           then list_ex (\<lambda>ent. take (length ent) cs = ent)
                  [''amp;'', ''lt;'', ''gt;'', ''quot;'', ''#x27;'']
           else True)
      \<and> markup_safe cs)"

text \<open>
  One render pass from state \<open>s\<close> to state \<open>s'\<close> only appends writes; the names in them
  are escaped and safe, and the identifiers they use are those from the counter of \<open>s\<close>
  up to that of \<open>s'\<close>, each once and in order.
\<close>

definition pass_ok :: "nat \<times> html_write list \<Rightarrow> nat \<times> html_write list \<Rightarrow> bool" where
  "pass_ok s s' =
     (\<exists>new. snd s' = snd s @ new
        \<and> (\<forall>w\<in>set new. \<forall>nm\<in>set (names_written w).
               markup_safe nm \<and> (\<exists>raw. nm = html_escape raw))
        \<and> toggle_ids new = [fst s..<fst s'] \<and> fst s \<le> fst s')"

text \<open>The default arguments as created at definition time, and two small trees.\<close>

definition html_defaults0 :: html_defaults where
  "html_defaults0 = \<lparr>counter_default = 0, builder_default = []\<rparr>"

definition empty_dir :: node where
  "empty_dir = Directory ''d'' 0 []"

definition script_dir :: node where
  "script_dir = Directory ''a&b'' 7 [File ''<script>'' 7]"

section \<open>The scanner\<close>

lemma Directory_init_unfold:
  "Directory_init p g0 =
     (let g = report p g0 in
      case lstat p of
        Inl e \<Rightarrow> (Directory (path_name p) 0 [], g\<lparr>log := log g @ [e], scanned := scanned g + 1\<rparr>)
      | Inr st_result \<Rightarrow>
         (case stat p of
            Inl e \<Rightarrow> (Directory (path_name p) 0 [], g\<lparr>log := log g @ [e], scanned := scanned g + 1\<rparr>)
          | Inr st_result2 \<Rightarrow>
             if st_ino st_result2 \<noteq> st_ino st_result then (Directory (path_name p) 0 [], g)
             else
              (case iterdir p of
                 Inl e \<Rightarrow>
                   (Directory (path_name p) 0 [], g\<lparr>log := log g @ [e], scanned := scanned g + 1\<rparr>)
               | Inr ps \<Rightarrow>
                  (case scan_entries ps (st_size st_result) [] g of
                     (Inl e, cont, g') \<Rightarrow>
                       (Directory (path_name p) 0 cont,
                        g'\<lparr>log := log g' @ [e], scanned := scanned g' + 1\<rparr>)
                   | (Inr sz, cont, g') \<Rightarrow>
                       (Directory (path_name p) sz cont, g'\<lparr>scanned := scanned g' + 1\<rparr>)))))"
  by (cases p, hypsubst_thin) (simp only: Directory_init.simps path.sel)

lemma scan_entries_no_raise:
  "\<forall>q\<in>set ps. \<not> entry_raises q \<Longrightarrow>
   \<exists>cont' g'. scan_entries ps sz cont g =
      (Inr (sz + sum_list (map size_of cont') + symlink_link_sizes ps), cont @ cont', g')"
proof (induction ps arbitrary: sz cont g)
  case Nil
  then show ?case by (simp add: symlink_link_sizes_def)
next
  case (Cons p ps)
  from Cons.prems have ok: "\<not> entry_raises p" and rest: "\<forall>q\<in>set ps. \<not> entry_raises q"
    by simp_all
  show ?case
  proof (cases "is_symlink p")
    case (Inl e)
    with ok show ?thesis by (simp add: entry_raises_def)
  next
    case (Inr b)
    show ?thesis
    proof (cases b)
      case True
      with Inr ok obtain s where s: "lstat p = Inr s"
        by (cases "lstat p") (auto simp: entry_raises_def)
      from Cons.IH [OF rest, of "sz + st_size s" cont g]
      obtain cont' g' where
        "scan_entries ps (sz + st_size s) cont g =
           (Inr (sz + st_size s + sum_list (map size_of cont') + symlink_link_sizes ps), cont @ cont', g')"
        by blast
      with Inr True s show ?thesis
        by (auto simp: symlink_link_sizes_def intro!: exI [of _ cont'])
    next
      case False
      with Inr ok obtain d where d: "is_dir p = Inr d"
        by (cases "is_dir p") (auto simp: entry_raises_def)
      obtain obj g1 where og: "(if d then Directory_init p g else File_init p g) = (obj, g1)"
        by (cases "if d then Directory_init p g else File_init p g") blast
      from Cons.IH [OF rest, of "sz + size_of obj" "cont @ [obj]" g1]
      obtain cont' g' where
        "scan_entries ps (sz + size_of obj) (cont @ [obj]) g1 =
           (Inr (sz + size_of obj + sum_list (map size_of cont') + symlink_link_sizes ps),
            (cont @ [obj]) @ cont', g')"
        by blast
      with Inr False d og show ?thesis
        by (cases d) (auto simp: symlink_link_sizes_def intro!: exI [of _ "obj # cont'"])
    qed
  qed
qed

text \<open>
  C1 (as amended). A directory that is stat'ed and listed without an error, is no
  junction, and none of whose entries raises, gets as its size its own link-stat size plus
  the sizes of its children plus the link sizes of the symlinks directly inside it.
\<close>

theorem dir_size_sum:
  assumes "lstat p = Inr s" and "stat p = Inr s'" and "st_ino s' = st_ino s"
    and "iterdir p = Inr ps" and "\<forall>q\<in>set ps. \<not> entry_raises q"
  shows "size_of (fst (Directory_init p g)) =
           st_size s + sum_list (map size_of (content (fst (Directory_init p g))))
             + symlink_link_sizes ps"
proof -
  from scan_entries_no_raise [OF assms(5), of "st_size s" "[]" "report p g"]
  obtain cont' g' where
    "scan_entries ps (st_size s) [] (report p g) =
       (Inr (st_size s + sum_list (map size_of cont') + symlink_link_sizes ps), [] @ cont', g')"
    by blast
  with assms(1-4) show ?thesis
    by (simp add: Directory_init_unfold)
qed

theorem dir_size_sum_witness:
  "Directory_init dir_d globals0 =
     (Directory ''d'' 5105 [File ''a'' 1000],
      \<lparr>scanned = 2, next_report_num = 0, stdout = [], log = []\<rparr>)
   \<and> size_of (fst (Directory_init dir_d globals0)) =
       4096 + sum_list (map size_of (content (fst (Directory_init dir_d globals0))))
         + symlink_link_sizes [file_a, link_b]"
proof -
  have ok: "\<forall>q\<in>set [file_a, link_b]. \<not> entry_raises q"
    by (simp add: entry_raises_def file_a_def link_b_def)
  have "size_of (fst (Directory_init dir_d globals0)) =
       st_size \<lparr>st_size = 4096, st_ino = 7\<rparr>
         + sum_list (map size_of (content (fst (Directory_init dir_d globals0))))
         + symlink_link_sizes [file_a, link_b]"
    by (rule dir_size_sum [OF _ _ _ _ ok, where s' = "\<lparr>st_size = 4096, st_ino = 7\<rparr>"])
       (simp_all add: dir_d_def)
  moreover have "Directory_init dir_d globals0 =
     (Directory ''d'' 5105 [File ''a'' 1000],
      \<lparr>scanned = 2, next_report_num = 0, stdout = [], log = []\<rparr>)"
    by (simp add: dir_d_def file_a_def link_b_def globals0_def report_def File_init_def)
  ultimately show ?thesis by simp
qed

text \<open>
  C1 as stated fails: a directory without entries whose own link-stat size is 4096 gets
  size 4096, not the sum of its children's sizes and symlink sizes, which is 0.
\<close>

theorem dir_size_counterexample:
  "size_of (fst (Directory_init dir4096 globals0))
     \<noteq> sum_list (map size_of (content (fst (Directory_init dir4096 globals0))))
         + symlink_link_sizes []
   \<and> iterdir dir4096 = Inr []"
  by (simp add: dir4096_def globals0_def report_def symlink_link_sizes_def)

text \<open>
  C5. A directory whose \<open>lstat\<close> and \<open>stat\<close> disagree on \<open>st_ino\<close> becomes a
  \<open>Directory\<close> of size 0 without content; nothing is logged, \<open>scanned\<close> is unchanged,
  and the node is the same whatever \<open>iterdir()\<close> would have answered: the directory is
  not listed.
\<close>

theorem junction_zero_size_leaf:
  assumes "st_ino s' \<noteq> st_ino s"
  shows "Directory_init (Path sp nm (Inr s) (Inr s') sl dr itd) g =
           (Directory nm 0 [], report (Path sp nm (Inr s) (Inr s') sl dr itd) g)
         \<and> scanned (snd (Directory_init (Path sp nm (Inr s) (Inr s') sl dr itd) g)) = scanned g
         \<and> log (snd (Directory_init (Path sp nm (Inr s) (Inr s') sl dr itd) g)) = log g
         \<and> fst (Directory_init (Path sp nm (Inr s) (Inr s') sl dr itd) g) =
             fst (Directory_init (Path sp nm (Inr s) (Inr s') sl dr itd') g)"
  using assms by (simp add: report_def)

theorem junction_zero_size_leaf_witness:
  "Directory_init junction_j globals0 = (Directory ''j'' 0 [], globals0)"
proof -
  have ne: "st_ino \<lparr>st_size = 0, st_ino = 8\<rparr> \<noteq> st_ino \<lparr>st_size = 0, st_ino = 3\<rparr>"
    by simp
  show ?thesis
    using junction_zero_size_leaf [OF ne, of "''C:/j''" "''j''" "Inr False" "Inr True"
        "iterdir junction_j" globals0]
    by (simp add: junction_j_def report_def globals0_def)
qed

text \<open>
  C4. A directory whose \<open>iterdir()\<close> raises \<open>OSError\<close> becomes a \<open>Directory\<close> of
  size 0 without content, the error is logged, and the loop of the parent directory
  goes on with the remaining entries.
\<close>

theorem listing_failure_zero_size:
  assumes "lstat p = Inr s" and "stat p = Inr s'" and "st_ino s' = st_ino s"
    and "iterdir p = Inl e"
  shows "Directory_init p g =
           (Directory (path_name p) 0 [],
            (report p g)\<lparr>log := log (report p g) @ [e],
                          scanned := scanned (report p g) + 1\<rparr>)
         \<and> (is_symlink p = Inr False \<and> is_dir p = Inr True \<longrightarrow>
              scan_entries (p # ps) sz cont g =
                scan_entries ps sz (cont @ [Directory (path_name p) 0 []])
                  ((report p g)\<lparr>log := log (report p g) @ [e],
                                scanned := scanned (report p g) + 1\<rparr>))"
  using assms by (simp add: Directory_init_unfold Let_def)

theorem listing_failure_zero_size_witness:
  "Directory_init locked globals0 =
     (Directory ''locked'' 0 [],
      \<lparr>scanned = 1, next_report_num = 0, stdout = [], log = [OSError ''Permission denied'']\<rparr>)
   \<and> scan_entries [locked, file_a] 0 [] globals0 =
       (Inr 1000, [Directory ''locked'' 0 [], File ''a'' 1000],
        \<lparr>scanned = 2, next_report_num = 0, stdout = [], log = [OSError ''Permission denied'']\<rparr>)"
proof -
  have a: "lstat locked = Inr \<lparr>st_size = 4096, st_ino = 21\<rparr>"
    and b: "stat locked = Inr \<lparr>st_size = 4096, st_ino = 21\<rparr>"
    and c: "iterdir locked = Inl (OSError ''Permission denied'')"
    and d: "is_symlink locked = Inr False \<and> is_dir locked = Inr True"
    by (simp_all add: locked_def)
  have r: "report locked globals0 = globals0"
    by (simp add: report_def globals0_def)
  from listing_failure_zero_size [OF a b _ c, of globals0 "[file_a]" 0 "[]"] d r
  show ?thesis
    by (simp add: globals0_def file_a_def File_init_def locked_def)
qed

text \<open>
  C3 (as amended). For a root that does not exist or is no directory that can be listed
  (\<open>lstat\<close> raises, or \<open>stat\<close> raises, or the two stats disagree on the inode, or
  \<open>iterdir\<close> raises), no failure reaches the caller: the constructor returns a
  \<open>Directory\<close> of size 0 without content, and logs the first error raised (nothing
  when the stats disagree on the inode).
\<close>

theorem root_failure_zero_size_node:
  assumes "Directory_default fs arg ''path'' = Inr p"
    and "(\<exists>e. lstat p = Inl e) \<or> (\<exists>e. stat p = Inl e)
         \<or> (\<exists>s s'. lstat p = Inr s \<and> stat p = Inr s' \<and> st_ino s' \<noteq> st_ino s)
         \<or> (\<exists>e. iterdir p = Inl e)"
  shows "fst (Directory_new fs arg g) = Inr (Directory (path_name p) 0 [])
         \<and> log (snd (Directory_new fs arg g)) = log g @ root_errors p"
proof -
  have r: "log (report p g) = log g" by (simp add: report_def)
  show ?thesis
  proof (cases "lstat p")
    case (Inl e)
    with assms(1) r show ?thesis
      by (simp add: Directory_new_def Directory_init_unfold Let_def root_errors_def)
  next
    case l: (Inr s)
    show ?thesis
    proof (cases "stat p")
      case (Inl e)
      with assms(1) l r show ?thesis
        by (simp add: Directory_new_def Directory_init_unfold Let_def root_errors_def)
    next
      case st: (Inr s')
      show ?thesis
      proof (cases "st_ino s' \<noteq> st_ino s")
        case True
        with assms(1) l st r show ?thesis
          by (simp add: Directory_new_def Directory_init_unfold Let_def root_errors_def)
      next
        case False
        with assms(2) l st obtain e where "iterdir p = Inl e" by auto
        with assms(1) l st False r show ?thesis
          by (simp add: Directory_new_def Directory_init_unfold Let_def root_errors_def)
      qed
    qed
  qed
qed

theorem root_failure_zero_size_node_witness:
  "Directory_new (\<lambda>_. missing) (PyStr ''C:/nope'') globals0 =
     (Inr (Directory ''nope'' 0 []),
      \<lparr>scanned = 1, next_report_num = 0, stdout = [],
       log = [OSError ''No such file or directory'']\<rparr>)
   \<and> fst (Directory_new (\<lambda>_. missing) (PyStr ''C:/nope'') globals0) =
       Inr (Directory (path_name missing) 0 [])
   \<and> fst (Directory_new (\<lambda>_. file_a) (PyStr ''/srv/d/a'') globals0) =
       Inr (Directory ''a'' 0 [])
   \<and> log (snd (Directory_new (\<lambda>_. file_a) (PyStr ''/srv/d/a'') globals0)) =
       [OSError ''Not a directory'']
   \<and> fst (Directory_new (\<lambda>_. link_b) (PyStr ''/srv/d/b'') globals0) =
       Inr (Directory ''b'' 0 [])
   \<and> log (snd (Directory_new (\<lambda>_. link_b) (PyStr ''/srv/d/b'') globals0)) = []
   \<and> fst (Directory_new (\<lambda>_. dangling) (PyStr ''/srv/l'') globals0) =
       Inr (Directory ''l'' 0 [])
   \<and> log (snd (Directory_new (\<lambda>_. dangling) (PyStr ''/srv/l'') globals0)) =
       [OSError ''No such file or directory'']"
proof -
  have d: "Directory_default (\<lambda>_. q) (PyStr x) ''path'' = Inr q" for q x
    by (simp add: Directory_default_def)
  have h1: "(\<exists>e. lstat missing = Inl e) \<or> (\<exists>e. stat missing = Inl e)
         \<or> (\<exists>s s'. lstat missing = Inr s \<and> stat missing = Inr s' \<and> st_ino s' \<noteq> st_ino s)
         \<or> (\<exists>e. iterdir missing = Inl e)"
    by (simp add: missing_def)
  have h2: "(\<exists>e. lstat file_a = Inl e) \<or> (\<exists>e. stat file_a = Inl e)
         \<or> (\<exists>s s'. lstat file_a = Inr s \<and> stat file_a = Inr s' \<and> st_ino s' \<noteq> st_ino s)
         \<or> (\<exists>e. iterdir file_a = Inl e)"
    by (simp add: file_a_def)
  have h3: "(\<exists>e. lstat link_b = Inl e) \<or> (\<exists>e. stat link_b = Inl e)
         \<or> (\<exists>s s'. lstat link_b = Inr s \<and> stat link_b = Inr s' \<and> st_ino s' \<noteq> st_ino s)
         \<or> (\<exists>e. iterdir link_b = Inl e)"
    by (simp add: link_b_def)
  have h4: "(\<exists>e. lstat dangling = Inl e) \<or> (\<exists>e. stat dangling = Inl e)
         \<or> (\<exists>s s'. lstat dangling = Inr s \<and> stat dangling = Inr s' \<and> st_ino s' \<noteq> st_ino s)
         \<or> (\<exists>e. iterdir dangling = Inl e)"
    by (simp add: dangling_def)
  have full: "Directory_new (\<lambda>_. missing) (PyStr ''C:/nope'') globals0 =
     (Inr (Directory ''nope'' 0 []),
      \<lparr>scanned = 1, next_report_num = 0, stdout = [],
       log = [OSError ''No such file or directory'']\<rparr>)"
    by (simp add: Directory_new_def Directory_default_def missing_def globals0_def report_def)
  have e: "root_errors missing = [OSError ''No such file or directory'']"
    "root_errors file_a = [OSError ''Not a directory'']"
    "root_errors link_b = []"
    "root_errors dangling = [OSError ''No such file or directory'']"
    "path_name file_a = ''a''" "path_name link_b = ''b''" "path_name dangling = ''l''"
    "log globals0 = []"
    by (simp_all add: root_errors_def missing_def file_a_def link_b_def dangling_def
          globals0_def)
  from root_failure_zero_size_node [OF d h1, of "''C:/nope''" globals0]
       root_failure_zero_size_node [OF d h2, of "''/srv/d/a''" globals0]
       root_failure_zero_size_node [OF d h3, of "''/srv/d/b''" globals0]
       root_failure_zero_size_node [OF d h4, of "''/srv/l''" globals0]
       full
  show ?thesis unfolding e by simp
qed

text \<open>
  C3 as stated fails: for a root that does not exist the constructor returns a node, of
  size 0, and not a failure.
\<close>

theorem root_failure_counterexample:
  "fst (Directory_new (\<lambda>_. missing) (PyStr ''C:/nope'') globals0)
     = Inr (Directory ''nope'' 0 [])
   \<and> lstat missing = Inl (OSError ''No such file or directory'')"
  by (simp add: Directory_new_def Directory_default_def missing_def globals0_def report_def)

text \<open>
  C10. \<open>Directory(None)\<close> scans \<open>Path('.')\<close>; an argument that is neither \<open>None\<close>, a
  \<open>str\<close> nor a \<open>Path\<close> raises \<open>TypeError\<close> and leaves the globals as they were, so
  nothing was scanned, printed or logged.
\<close>

theorem none_is_cwd_other_is_type_error:
  "Directory_new fs PyNone g = Directory_new fs (PyPath (fs ''.'')) g
   \<and> Directory_new fs PyNone g =
       (Inr (fst (Directory_init (fs ''.'') g)), snd (Directory_init (fs ''.'') g))
   \<and> Directory_new fs PyOther g =
       (Inl (TypeError ''path must be None, a str or a pathlib.Path''), g)"
  by (simp add: Directory_new_def Directory_default_def split: prod.splits)

section \<open>The size formatter\<close>











lemma digit_chars:
  "digit_char 0 = CHR ''0''" "digit_char 1 = CHR ''1''" "digit_char 2 = CHR ''2''"
  "digit_char 3 = CHR ''3''" "digit_char 4 = CHR ''4''" "digit_char 5 = CHR ''5''"
  "digit_char 6 = CHR ''6''" "digit_char 7 = CHR ''7''" "digit_char 8 = CHR ''8''"
  "digit_char 9 = CHR ''9''" "digit_char (Suc 0) = CHR ''1''"
  by code_simp+

lemmas fmt_eval = format_size_def format_4g_def sig4_def dec_exp_def round_half_even_def
  scale10_def ndigits.simps str_nat.simps frac_part_def exp_digits_def digit_chars Let_def


text \<open>The examples of the docstring of \<open>format_size\<close>.\<close>

lemma format_size_docstring:
  "format_size 1 = ''1B''" "format_size 1024 = ''1KiB''"
  "format_size (2 ^ 100) = ''1.049e+06YiB''"
  by (simp_all add: fmt_eval)





section \<open>The loop over the children\<close>

lemma sort_key_Nil_iff: "sort_key f xs = [] \<longleftrightarrow> xs = []"
  by (metis length_sort length_0_conv)

lemma fold_split:
  "fold (\<lambda>subpath (f, others).
           if m \<le> real_of_int (size_of subpath) then (rec subpath f, others)
           else (f, others @ [size_of subpath])) xs (f0, os0)
   = (fold rec (filter (\<lambda>c. m \<le> real_of_int (size_of c)) xs) f0,
      os0 @ map size_of (filter (\<lambda>c. \<not> m \<le> real_of_int (size_of c)) xs))"
  by (induction xs arbitrary: f0 os0) simp_all


lemma print_html_Directory:
  assumes "cont \<noteq> []"
  shows "print_html_tree_elements (Directory nm sz cont) threshold level (counter, builder) =
     (case fold (\<lambda>c. print_html_tree_elements c threshold (level + 1))
             (shown_children sz threshold cont)
             (counter + 1,
              builder @ [FolderOpen (replicate level CHR '' ''),
                 FolderLabel (replicate level CHR '' '') counter (html_escape nm)
                   (html_escape (format_size (real_of_int sz)))])
      of (counter', builder') \<Rightarrow>
        (counter',
         builder'
         @ (if other_sizes sz threshold cont = [] then []
            else [OthersMark (replicate level CHR '' '')
                   (html_escape (format_size (real_of_int (sum_list (other_sizes sz threshold cont)))))
                   (length (other_sizes sz threshold cont))
                   (html_escape (format_size (np_average (other_sizes sz threshold cont))))
                   (html_escape (format_size (sqrt (np_var (other_sizes sz threshold cont)))))])
         @ [FolderClose (replicate level CHR '' '')]))"
  using assms
  by (simp add: sort_key_Nil_iff fold_split shown_children_def other_sizes_def min_size_of_def Let_def
           split: prod.splits del: fold_simps)















section \<open>The document backend\<close>

lemma markup_safe_escape_char: "markup_safe t \<Longrightarrow> markup_safe (escape_char c @ t)"
  by (simp add: escape_char_def)

lemma markup_safe_escape: "markup_safe (html_escape s)"
  by (induction s) (simp_all add: html_escape_def markup_safe_escape_char)

lemma toggle_ids_append: "toggle_ids (xs @ ys) = toggle_ids xs @ toggle_ids ys"
  by (simp add: toggle_ids_def)

lemma pass_ok_refl: "pass_ok s s"
  by (simp add: pass_ok_def toggle_ids_def)

lemma pass_ok_trans:
  assumes "pass_ok s1 s2" and "pass_ok s2 s3"
  shows "pass_ok s1 s3"
proof -
  from assms(1) obtain n1 where n1: "snd s2 = snd s1 @ n1"
    "\<forall>w\<in>set n1. \<forall>nm\<in>set (names_written w). markup_safe nm \<and> (\<exists>raw. nm = html_escape raw)"
    "toggle_ids n1 = [fst s1..<fst s2]" "fst s1 \<le> fst s2"
    unfolding pass_ok_def by blast
  from assms(2) obtain n2 where n2: "snd s3 = snd s2 @ n2"
    "\<forall>w\<in>set n2. \<forall>nm\<in>set (names_written w). markup_safe nm \<and> (\<exists>raw. nm = html_escape raw)"
    "toggle_ids n2 = [fst s2..<fst s3]" "fst s2 \<le> fst s3"
    unfolding pass_ok_def by blast
  have a: "snd s3 = snd s1 @ (n1 @ n2)" using n1(1) n2(1) by simp
  have b: "\<forall>w\<in>set (n1 @ n2). \<forall>nm\<in>set (names_written w).
             markup_safe nm \<and> (\<exists>raw. nm = html_escape raw)"
    using n1(2) n2(2) by auto
  have "[fst s1..<fst s2] @ [fst s2..<fst s3] = [fst s1..<fst s3]"
    using n1(4) n2(4) by (metis le_Suc_ex upt_add_eq_append)
  then have c: "toggle_ids (n1 @ n2) = [fst s1..<fst s3]"
    using n1(3) n2(3) by (simp add: toggle_ids_append)
  have d: "fst s1 \<le> fst s3" using n1(4) n2(4) by simp
  from a b c d show ?thesis unfolding pass_ok_def by blast
qed

lemma fold_pass_ok:
  "(\<And>x s. x \<in> set xs \<Longrightarrow> pass_ok s (f x s)) \<Longrightarrow> pass_ok s (fold f xs s)"
proof (induction xs arbitrary: s)
  case Nil
  show ?case by (simp add: pass_ok_refl)
next
  case (Cons x xs)
  have "pass_ok s (f x s)" by (rule Cons.prems) simp
  moreover have "pass_ok (f x s) (fold f xs (f x s))"
    by (rule Cons.IH) (simp add: Cons.prems)
  ultimately show ?case by (simp add: pass_ok_trans)
qed

lemma pass_ok_open:
  "pass_ok (c, b) (c + 1, b @ [FolderOpen ls, FolderLabel ls c (html_escape nm) sz])"
  by (auto simp: pass_ok_def toggle_ids_def names_written_def markup_safe_escape)

lemma pass_ok_close:
  "pass_ok (c, b)
     (c, b @ (if os = [] then [] else [OthersMark ls tot num avg sd]) @ [FolderClose ls])"
  by (auto simp: pass_ok_def toggle_ids_def names_written_def)

lemma print_html_Directory_empty:
  "print_html_tree_elements (Directory nm sz []) threshold level (counter, builder) =
     (counter + 1,
      builder @ [FolderOpen (replicate level CHR '' ''),
        FolderLabel (replicate level CHR '' '') counter (html_escape nm)
          (html_escape (format_size (real_of_int sz))),
        EmptyMark (replicate level CHR '' ''), FolderClose (replicate level CHR '' '')])"
  by (simp add: Let_def)

lemma elements_pass_ok:
  "pass_ok (c, b) (print_html_tree_elements path threshold level (c, b))"
proof (induction path arbitrary: threshold level c b)
  case (File nm sz)
  show ?case
    by (auto simp: pass_ok_def toggle_ids_def names_written_def markup_safe_escape)
next
  case (Directory nm sz cont)
  show ?case
  proof (cases "cont = []")
    case True
    show ?thesis
      unfolding True print_html_Directory_empty
      by (auto simp: pass_ok_def toggle_ids_def names_written_def markup_safe_escape)
  next
    case False
    let ?ls = "replicate level CHR '' ''"
    let ?s1 = "(c + 1, b @ [FolderOpen ?ls, FolderLabel ?ls c (html_escape nm)
                   (html_escape (format_size (real_of_int sz)))])"
    let ?s2 = "fold (\<lambda>x. print_html_tree_elements x threshold (level + 1))
                 (shown_children sz threshold cont) ?s1"
    have step: "pass_ok s (print_html_tree_elements x threshold (level + 1) s)"
      if "x \<in> set (shown_children sz threshold cont)" for x s
    proof -
      from that have "x \<in> set cont" by (simp add: shown_children_def)
      from Directory.IH [OF this, of "fst s" "snd s" threshold "level + 1"]
      show ?thesis by simp
    qed
    have a: "pass_ok (c, b) ?s1" by (rule pass_ok_open)
    have bb: "pass_ok ?s1 ?s2" by (rule fold_pass_ok) (rule step)
    obtain c' b' where s2: "?s2 = (c', b')" by (cases ?s2)
    have cc: "pass_ok (c', b')
        (c', b' @ (if other_sizes sz threshold cont = [] then []
            else [OthersMark ?ls
                   (html_escape (format_size (real_of_int (sum_list (other_sizes sz threshold cont)))))
                   (length (other_sizes sz threshold cont))
                   (html_escape (format_size (np_average (other_sizes sz threshold cont))))
                   (html_escape (format_size (sqrt (np_var (other_sizes sz threshold cont)))))])
         @ [FolderClose ?ls])"
      by (rule pass_ok_close)
    have "pass_ok (c, b) (c', b')" using a bb unfolding s2 by (rule pass_ok_trans)
    then have "pass_ok (c, b)
        (c', b' @ (if other_sizes sz threshold cont = [] then []
            else [OthersMark ?ls
                   (html_escape (format_size (real_of_int (sum_list (other_sizes sz threshold cont)))))
                   (length (other_sizes sz threshold cont))
                   (html_escape (format_size (np_average (other_sizes sz threshold cont))))
                   (html_escape (format_size (sqrt (np_var (other_sizes sz threshold cont)))))])
         @ [FolderClose ?ls])"
      using cc by (rule pass_ok_trans)
    then show ?thesis
      unfolding print_html_Directory [OF False] s2 by simp
  qed
qed

text \<open>
  C9. In one pass of \<open>print_html_tree_elements\<close> every name written to the document is
  the \<open>html.escape\<close> of a name and contains no markup-significant character outside
  an entity, and the toggle identifiers written are the consecutive numbers from the
  counter's value at the start of the pass up to its value at the end: no two are equal.
\<close>

theorem html_names_escaped_ids_distinct:
  assumes "print_html_tree_elements path threshold level (counter, builder)
             = (counter', builder')"
  shows "\<exists>new. builder' = builder @ new
           \<and> (\<forall>w\<in>set new. \<forall>nm\<in>set (names_written w).
                  markup_safe nm \<and> (\<exists>raw. nm = html_escape raw))
           \<and> toggle_ids new = [counter..<counter'] \<and> distinct (toggle_ids new)"
proof -
  from elements_pass_ok [of counter builder path threshold level] assms
  obtain new where n: "builder' = builder @ new"
    "\<forall>w\<in>set new. \<forall>nm\<in>set (names_written w). markup_safe nm \<and> (\<exists>raw. nm = html_escape raw)"
    "toggle_ids new = [counter..<counter']"
    unfolding pass_ok_def by auto
  from n(3) have "distinct (toggle_ids new)" by simp
  with n show ?thesis by blast
qed

lemma script_dir_pass:
  "print_html_tree_elements script_dir 1 0 (0, []) =
     (1, [FolderOpen [], FolderLabel [] 0 ''a&amp;b'' ''7B'',
          FileLine '' '' ''7B'' ''&lt;script&gt;'', FolderClose []])"
proof -
  have ne: "[File ''<script>'' 7] \<noteq> []" by simp
  have sh: "shown_children 7 1 [File ''<script>'' 7] = [File ''<script>'' 7]"
    by (simp add: shown_children_def min_size_of_def)
  have ot: "other_sizes 7 1 [File ''<script>'' 7] = []"
    by (simp add: other_sizes_def min_size_of_def)
  have f: "format_size 7 = ''7B''" by (simp add: fmt_eval)
  show ?thesis
    unfolding script_dir_def print_html_Directory [OF ne] sh ot
    by (simp add: f html_escape_def escape_char_def)
qed

theorem html_names_escaped_ids_distinct_witness:
  "\<exists>new. [FolderOpen [], FolderLabel [] 0 ''a&amp;b'' ''7B'',
          FileLine '' '' ''7B'' ''&lt;script&gt;'', FolderClose []] = [] @ new
           \<and> (\<forall>w\<in>set new. \<forall>nm\<in>set (names_written w).
                  markup_safe nm \<and> (\<exists>raw. nm = html_escape raw))
           \<and> toggle_ids new = [0..<1] \<and> distinct (toggle_ids new)"
  by (rule html_names_escaped_ids_distinct [OF script_dir_pass])

lemma empty_dir_pass:
  "print_html_tree_elements empty_dir (6 / 5) 0 (n, []) =
     (n + 1, [FolderOpen [], FolderLabel [] n ''d'' ''0B'', EmptyMark [], FolderClose []])"
  by (simp add: empty_dir_def html_escape_def escape_char_def fmt_eval)

lemma str_nat_0_1: "str_nat 0 = ''0''" "str_nat (Suc 0) = ''1''" "str_nat 1 = ''1''"
  by code_simp+

text \<open>
  C6 fails for the document backend: \<open>print_html_tree\<close> leaves \<open>counter\<close> to the
  default argument, which is created once and shared by all calls, so a second rendering
  of the same tree with the same threshold numbers its toggles from where the first one
  stopped. For an empty directory the first document has \<open>id="0"\<close> and the second
  \<open>id="1"\<close>.
\<close>

theorem html_rendered_twice_differs:
  "fst (print_html_tree empty_dir (6 / 5) 0 [] html_defaults0) =
     [html_template (getvalue
        [FolderOpen [], FolderLabel [] 0 ''d'' ''0B'', EmptyMark [], FolderClose []])]
   \<and> fst (print_html_tree empty_dir (6 / 5) 0 []
            (snd (print_html_tree empty_dir (6 / 5) 0 [] html_defaults0))) =
     [html_template (getvalue
        [FolderOpen [], FolderLabel [] 1 ''d'' ''0B'', EmptyMark [], FolderClose []])]
   \<and> fst (print_html_tree empty_dir (6 / 5) 0 [] html_defaults0) \<noteq>
       fst (print_html_tree empty_dir (6 / 5) 0 []
            (snd (print_html_tree empty_dir (6 / 5) 0 [] html_defaults0)))"
proof -
  have p1: "print_html_tree empty_dir (6 / 5) 0 [] html_defaults0 =
      ([html_template (getvalue
          [FolderOpen [], FolderLabel [] 0 ''d'' ''0B'', EmptyMark [], FolderClose []])],
       \<lparr>counter_default = 1, builder_default = []\<rparr>)"
    by (simp add: print_html_tree_def html_defaults0_def empty_dir_pass)
  have p2: "print_html_tree empty_dir (6 / 5) 0 []
        \<lparr>counter_default = 1, builder_default = []\<rparr> =
      ([html_template (getvalue
          [FolderOpen [], FolderLabel [] 1 ''d'' ''0B'', EmptyMark [], FolderClose []])],
       \<lparr>counter_default = 2, builder_default = []\<rparr>)"
    by (simp add: print_html_tree_def empty_dir_pass)
  have ne: "html_template (getvalue
          [FolderOpen [], FolderLabel [] 0 ''d'' ''0B'', EmptyMark [], FolderClose []]) \<noteq>
        html_template (getvalue
          [FolderOpen [], FolderLabel [] 1 ''d'' ''0B'', EmptyMark [], FolderClose []])"
    by (simp add: html_template_def getvalue_def write_text_def str_nat_0_1)
  from p1 p2 ne show ?thesis by simp
qed

end
